theory Spec2Isabelle
  imports Main
begin

section \<open>Data model (src/types/index.ts)\<close>

text \<open>
  File names, bucket names and log lines are \<open>string\<close>s.

  What a \<^verbatim>\<open>throw\<close> or a rejected promise carries is any JavaScript value, and the
  handler puts it into its log lines with a template literal. \<open>Error s\<close> is a value
  that \<^verbatim>\<open>`${err}`\<close> renders as \<open>s\<close>. \<open>Unprintable s\<close> is a value the rendering itself
  throws on (a \<^verbatim>\<open>Symbol\<close>, an object without a prototype): the \<^verbatim>\<open>TypeError\<close> it throws
  renders as \<open>s\<close>.
\<close>

datatype error_value = Error string | Unprintable string

fun render :: "error_value \<Rightarrow> error_value + string" where
  "render (Error s) = Inr s"
| "render (Unprintable s) = Inl (Error s)"

text \<open>
  \<^verbatim>\<open>detectMimeType\<close> is declared to return a string, but it reads the object literal
  \<^verbatim>\<open>mimeTypes\<close> with a computed key, and such a read also finds the members the literal
  inherits from \<^verbatim>\<open>Object.prototype\<close>. The value that reaches \<^verbatim>\<open>canProcess\<close> and the
  context is therefore one of: a string, the function \<^verbatim>\<open>Object\<close> (found under the key
  \<^verbatim>\<open>constructor\<close>), or the prototype object itself (found under \<^verbatim>\<open>__proto__\<close>).
\<close>

datatype mime_value = Str string | ObjectConstructor | ObjectPrototype

record ProcessorContext =
  ctx_bucket :: string
  ctx_file :: string
  ctx_buffer :: "nat list"
  ctx_mimeType :: mime_value
  ctx_metadata :: "(string \<times> string) list"

record BucketNotificationEvent =
  ev_bucket :: string
  ev_file :: string
  ev_eventType :: string

text \<open>
  A \<^verbatim>\<open>FileProcessor\<close> is a plugin, and each of the three things the handler asks of it
  can throw. \<^verbatim>\<open>canProcess\<close> is the synchronous predicate: \<open>Inr\<close> the boolean it returns,
  \<open>Inl\<close> what it throws (a predicate written for strings throws when it is handed the
  function or the object that \<^verbatim>\<open>detectMimeType\<close> can return). \<^verbatim>\<open>process\<close> returns a
  promise that settles as resolved or rejected, and, as the context is passed by
  reference, may leave it changed for the processors after it. \<open>constructor_name\<close> is
  \<^verbatim>\<open>${processor.constructor.name}\<close>, the only identity the log lines carry: \<open>Inr\<close> its
  text, \<open>Inl\<close> what evaluating it throws (a processor without a prototype has no
  \<^verbatim>\<open>constructor\<close> to read \<^verbatim>\<open>name\<close> from).
\<close>

datatype settled = Resolved | Rejected error_value

record FileProcessor =
  constructor_name :: "error_value + string"
  canProcess :: "string \<Rightarrow> mime_value \<Rightarrow> error_value + bool"
  process :: "ProcessorContext \<Rightarrow> settled \<times> ProcessorContext"

text \<open>
  The inbound payload is \<^verbatim>\<open>any\<close>; it is taken to be an object, a record of the
  event the poller parsed, with a string for its key if it has one. The handler reads
  \<^verbatim>\<open>notification.s3?.object?.key\<close> only. Each level that optional chaining tolerates
  as missing is an \<open>option\<close>.
\<close>

record s3_object =
  key :: "string option"

record s3_entity =
  object :: "s3_object option"

record notification =
  eventName :: string
  s3 :: "s3_entity option"

text \<open>
  The registry entry and the part of the mediator's configuration that
  \<^verbatim>\<open>registerBucket\<close> reads. An optional field is an \<open>option\<close>.
\<close>

record BucketRegistryEntry =
  entry_bucket :: string
  entry_region :: "string option"
  entry_url :: "string option"
  entry_fileName :: "string option"
  entry_authToken :: "string option"

record config_section =
  minio_buckets_registry :: "BucketRegistryEntry list option"

record MediatorConfig =
  mc_urn :: string
  mc_version :: string
  mc_name :: string
  mc_description :: string
  mc_config :: "config_section option"

text \<open>Everything the code does to the outside, in the order it does it.\<close>

datatype effect =
    LogDebug string
  | LogInfo string
  | LogWarn string
  | LogError string
  | EmitNotification BucketNotificationEvent
  | FGetObject string string string
  | ReadFile string
  | Process FileProcessor ProcessorContext
  | Rm string
  | HttpGet
  | HttpPut "BucketRegistryEntry list"

text \<open>
  The collaborators the dispatcher calls but does not implement: the results of the
  object-store client, of \<^verbatim>\<open>fs/promises\<close> and of the event bus. \<open>None\<close> is a call
  that returned normally, \<open>Some e\<close> one that threw or rejected with \<open>e\<close>.
  \<open>emit_throws\<close> is a subscriber of the bus throwing inside the synchronous
  \<^verbatim>\<open>emit\<close>.
\<close>

record env =
  emit_throws :: "BucketNotificationEvent \<Rightarrow> error_value option"
  fGetObject :: "string \<Rightarrow> string \<Rightarrow> string \<Rightarrow> error_value option"
  readFile :: "string \<Rightarrow> error_value + nat list"
  rm :: "string \<Rightarrow> error_value option"
  listenBucketNotification_throws :: "string \<Rightarrow> error_value option"

section \<open>ListenerManager.detectMimeType\<close>

text \<open>\<^verbatim>\<open>file.split(".")\<close>: always at least one segment.\<close>

fun split_on :: "char \<Rightarrow> string \<Rightarrow> string list" where
  "split_on c [] = [[]]"
| "split_on c (x # xs) =
     (if x = c then [] # split_on c xs
      else (case split_on c xs of
              [] \<Rightarrow> [[x]]
            | s # ss \<Rightarrow> (x # s) # ss))"

text \<open>\<^verbatim>\<open>Array.prototype.pop\<close>: the last element, \<^verbatim>\<open>undefined\<close> on an empty array.\<close>

definition pop :: "'a list \<Rightarrow> 'a option" where
  "pop xs = (if xs = [] then None else Some (last xs))"

text \<open>
  \<^verbatim>\<open>toLowerCase\<close>, as far as the lookup can tell: \<^verbatim>\<open>A\<close> to \<^verbatim>\<open>Z\<close> are mapped, every
  other character is left as it is. Outside ASCII only the Kelvin sign and the dotted
  capital I have a lower case with an ASCII letter in it (\<^verbatim>\<open>k\<close> and \<^verbatim>\<open>i\<close>), and no
  key that the lookup can find contains either letter.
\<close>

definition lower_char :: "char \<Rightarrow> char" where
  "lower_char c =
     (case map_of (zip ''ABCDEFGHIJKLMNOPQRSTUVWXYZ'' ''abcdefghijklmnopqrstuvwxyz'') c of
        None \<Rightarrow> c
      | Some l \<Rightarrow> l)"

definition toLowerCase :: "string \<Rightarrow> string" where
  "toLowerCase s = map lower_char s"

definition mimeTypes :: "(string \<times> string) list" where
  "mimeTypes =
     [(''json'', ''application/json''),
      (''csv'', ''text/csv''),
      (''txt'', ''text/plain''),
      (''xml'', ''application/xml''),
      (''mp3'', ''audio/mpeg''),
      (''wav'', ''audio/wav''),
      (''mp4'', ''video/mp4''),
      (''pdf'', ''application/pdf''),
      (''png'', ''image/png''),
      (''jpg'', ''image/jpeg''),
      (''jpeg'', ''image/jpeg'')]"

text \<open>
  \<^verbatim>\<open>mimeTypes[k]\<close>: the literal's own property, else what \<^verbatim>\<open>Object.prototype\<close> has
  under \<open>k\<close>. The key is already lower case, and of the prototype's members only
  \<^verbatim>\<open>constructor\<close> and \<^verbatim>\<open>__proto__\<close> are spelt without a capital.
\<close>

definition get_property :: "string \<Rightarrow> mime_value option" where
  "get_property k =
     (case map_of mimeTypes k of
        Some v \<Rightarrow> Some (Str v)
      | None \<Rightarrow>
          if k = ''constructor'' then Some ObjectConstructor
          else if k = ''__proto__'' then Some ObjectPrototype
          else None)"

text \<open>JavaScript truthiness of the values a lookup can give.\<close>

fun truthy :: "mime_value \<Rightarrow> bool" where
  "truthy (Str s) = (s \<noteq> [])"
| "truthy ObjectConstructor = True"
| "truthy ObjectPrototype = True"

definition detectMimeType :: "string \<Rightarrow> mime_value" where
  "detectMimeType file =
     (let ext = map_option toLowerCase (pop (split_on CHR ''.'' file));
          k = (case ext of None \<Rightarrow> [] | Some e \<Rightarrow> if e = [] then [] else e)
      in case get_property k of
           Some v \<Rightarrow> if truthy v then v else Str ''application/octet-stream''
         | None \<Rightarrow> Str ''application/octet-stream'')"

section \<open>ListenerManager.handleNotification\<close>

definition object_key :: "notification \<Rightarrow> string option" where
  "object_key n =
     (case s3 n of
        None \<Rightarrow> None
      | Some e \<Rightarrow> (case object e of None \<Rightarrow> None | Some ob \<Rightarrow> key ob))"

text \<open>
  The inner \<^verbatim>\<open>catch\<close>: the error line. The template takes the processor's name
  first and the error last, and either can throw; what is thrown here leaves the loop.
\<close>

definition inner_catch :: "FileProcessor \<Rightarrow> string \<Rightarrow> error_value \<Rightarrow> error_value + effect" where
  "inner_catch p file err =
     (case constructor_name p of
        Inl thrown \<Rightarrow> Inl thrown
      | Inr nm \<Rightarrow>
          (case render err of
             Inl thrown \<Rightarrow> Inl thrown
           | Inr rendered \<Rightarrow>
               Inr (LogError (''Processor '' @ nm @ '' failed for '' @ file
                              @ '': '' @ rendered))))"

text \<open>
  The inner \<^verbatim>\<open>try\<close> once \<^verbatim>\<open>process\<close> has settled: the debug line when it resolved
  (a name that throws there is caught like a rejection), the inner \<^verbatim>\<open>catch\<close> when it
  rejected. \<open>Inr\<close> is the line logged, \<open>Inl\<close> what escapes the inner \<^verbatim>\<open>catch\<close>.
\<close>

definition inner_try :: "FileProcessor \<Rightarrow> string \<Rightarrow> settled \<Rightarrow> error_value + effect" where
  "inner_try p file outcome =
     (case outcome of
        Resolved \<Rightarrow>
          (case constructor_name p of
             Inl thrown \<Rightarrow> inner_catch p file thrown
           | Inr nm \<Rightarrow> Inr (LogDebug (''Processed '' @ file @ '' with '' @ nm)))
      | Rejected err \<Rightarrow> inner_catch p file err)"

text \<open>
  The fan-out loop over \<^verbatim>\<open>this.processors\<close>: the effects, and \<open>Some thrown\<close> when
  an exception ends the loop. The call of \<^verbatim>\<open>canProcess\<close> stands outside the inner
  \<^verbatim>\<open>try\<close>, so what it throws ends the loop, as does what the inner \<^verbatim>\<open>catch\<close> throws.
\<close>

fun run_processors ::
  "FileProcessor list \<Rightarrow> string \<Rightarrow> mime_value \<Rightarrow> ProcessorContext
     \<Rightarrow> effect list \<times> error_value option" where
  "run_processors [] file mimeType context = ([], None)"
| "run_processors (p # ps) file mimeType context =
     (case canProcess p file mimeType of
        Inl thrown \<Rightarrow> ([], Some thrown)
      | Inr matches \<Rightarrow>
          (if matches then
             (case process p context of
                (outcome, context') \<Rightarrow>
                  (case inner_try p file outcome of
                     Inl thrown \<Rightarrow> ([Process p context], Some thrown)
                   | Inr line \<Rightarrow>
                       (case run_processors ps file mimeType context' of
                          (rest, left) \<Rightarrow> (Process p context # line # rest, left))))
           else run_processors ps file mimeType context))"

text \<open>
  The body of the outer \<^verbatim>\<open>try\<close>: the effects it performs, and \<open>Some error\<close> when
  it leaves by an exception, which the \<^verbatim>\<open>catch\<close> below it receives. The removal is
  the last statement of the body, not a \<^verbatim>\<open>finally\<close>: an exception of the read or of
  the fan-out passes it by. The dynamic import of the built-in \<^verbatim>\<open>fs/promises\<close> is
  taken to succeed.
\<close>

definition try_body ::
  "env \<Rightarrow> FileProcessor list \<Rightarrow> string \<Rightarrow> string \<Rightarrow> effect list \<times> error_value option" where
  "try_body E ps bucket file =
     (let tmpPath = ''tmp/'' @ file in
      (case fGetObject E bucket file tmpPath of
         Some error \<Rightarrow> ([FGetObject bucket file tmpPath], Some error)
       | None \<Rightarrow>
           (case readFile E tmpPath of
              Inl error \<Rightarrow> ([FGetObject bucket file tmpPath, ReadFile tmpPath], Some error)
            | Inr buffer \<Rightarrow>
                (let mimeType = detectMimeType file;
                     context = \<lparr>ctx_bucket = bucket, ctx_file = file, ctx_buffer = buffer,
                                ctx_mimeType = mimeType, ctx_metadata = []\<rparr>
                 in (case run_processors ps file mimeType context of
                       (fanout, Some thrown) \<Rightarrow>
                         ([FGetObject bucket file tmpPath, ReadFile tmpPath] @ fanout,
                          Some thrown)
                     | (fanout, None) \<Rightarrow>
                         (case rm E tmpPath of
                            Some error \<Rightarrow>
                              ([FGetObject bucket file tmpPath, ReadFile tmpPath] @ fanout
                                 @ [Rm tmpPath],
                               Some error)
                          | None \<Rightarrow>
                              ([FGetObject bucket file tmpPath, ReadFile tmpPath] @ fanout
                                 @ [Rm tmpPath,
                                    LogDebug (''Cleaned up temp file '' @ tmpPath)],
                               None)))))))"

text \<open>
  The result is the effects performed and how the promise of \<^verbatim>\<open>handleNotification\<close>
  settles: \<open>Inr ()\<close> resolved, \<open>Inl e\<close> rejected with \<open>e\<close>. The publication on the bus
  stands before the \<^verbatim>\<open>try\<close>, so what a subscriber throws rejects the promise; so
  does the outer \<^verbatim>\<open>catch\<close> when the error it is to log cannot be rendered.
\<close>

definition handleNotification ::
  "env \<Rightarrow> FileProcessor list \<Rightarrow> string \<Rightarrow> notification
     \<Rightarrow> effect list \<times> (error_value + unit)" where
  "handleNotification E ps bucket n =
     (case object_key n of
        None \<Rightarrow> ([LogWarn ''Received notification without file key''], Inr ())
      | Some file \<Rightarrow>
          (if file = [] then ([LogWarn ''Received notification without file key''], Inr ())
           else
             (let event = \<lparr>ev_bucket = bucket, ev_file = file,
                           ev_eventType = ''s3:ObjectCreated:*''\<rparr>;
                  pre = [LogInfo (''File received: '' @ file @ '' from bucket '' @ bucket),
                         EmitNotification event]
              in (case emit_throws E event of
                    Some e \<Rightarrow> (pre, Inl e)
                  | None \<Rightarrow>
                      (case try_body E ps bucket file of
                         (done, None) \<Rightarrow> (pre @ done, Inr ())
                       | (done, Some error) \<Rightarrow>
                           (case render error of
                              Inl thrown \<Rightarrow> (pre @ done, Inl thrown)
                            | Inr rendered \<Rightarrow>
                                (pre @ done
                                   @ [LogError (''Error processing file '' @ file @ '': ''
                                                @ rendered)],
                                 Inr ())))))))"

section \<open>ListenerManager: registration and subscriptions\<close>

text \<open>
  The fields of the class, and beside them what its calls leave in the object-store
  client: the pollers \<^verbatim>\<open>listenBucketNotification\<close> has returned (a poller is known by
  its position in \<open>pollers\<close>, its handle), the handles \<^verbatim>\<open>stop()\<close> was called on, and the
  observers wired with \<^verbatim>\<open>listener.on\<close>, each with the bucket its closure captured.
  \<open>registeredBuckets\<close> is the \<^verbatim>\<open>Set\<close> and \<open>listeners\<close> the \<^verbatim>\<open>Map\<close>, both in
  insertion order, as JavaScript iterates them.
\<close>

record poller =
  pbucket :: string
  pprefix :: string
  psuffix :: string
  pevents :: "string list"

record ListenerManager =
  processors :: "FileProcessor list"
  registeredBuckets :: "string list"
  listeners :: "(string \<times> nat) list"
  prefix :: string
  suffix :: string
  pollers :: "poller list"
  stopped :: "nat list"
  on_notification :: "(nat \<times> string) list"
  on_error :: "(nat \<times> string) list"
  logged :: "effect list"

definition new_ListenerManager :: "string \<Rightarrow> string \<Rightarrow> ListenerManager" where
  "new_ListenerManager pre suf =
     \<lparr>processors = [], registeredBuckets = [], listeners = [], prefix = pre, suffix = suf,
      pollers = [], stopped = [], on_notification = [], on_error = [], logged = []\<rparr>"

text \<open>
  \<^verbatim>\<open>registerProcessor\<close>: the \<^verbatim>\<open>push\<close>, then the debug line. A name that throws leaves
  the processor registered and the line unwritten.
\<close>

definition registerProcessor ::
  "ListenerManager \<Rightarrow> FileProcessor \<Rightarrow> ListenerManager \<times> (error_value + unit)" where
  "registerProcessor m p =
     (case constructor_name p of
        Inl thrown \<Rightarrow> (m\<lparr>processors := processors m @ [p]\<rparr>, Inl thrown)
      | Inr nm \<Rightarrow>
          (m\<lparr>processors := processors m @ [p],
             logged := logged m @ [LogDebug (''Registered file processor: '' @ nm)]\<rparr>,
           Inr ()))"

text \<open>\<^verbatim>\<open>Set.prototype.add\<close> and \<^verbatim>\<open>Map.prototype.set\<close>.\<close>

definition set_add :: "'a \<Rightarrow> 'a list \<Rightarrow> 'a list" where
  "set_add x xs = (if x \<in> set xs then xs else xs @ [x])"

fun map_set :: "'k \<Rightarrow> 'v \<Rightarrow> ('k \<times> 'v) list \<Rightarrow> ('k \<times> 'v) list" where
  "map_set k v [] = [(k, v)]"
| "map_set k v ((k', v') # rest) =
     (if k' = k then (k, v) # rest else (k', v') # map_set k v rest)"

text \<open>
  \<^verbatim>\<open>startListening\<close>: the loop over \<open>buckets\<close>. A client that throws on opening a
  subscription ends the call there, with the buckets before it subscribed.
\<close>

fun startListening ::
  "env \<Rightarrow> string list \<Rightarrow> ListenerManager \<Rightarrow> ListenerManager \<times> (error_value + unit)" where
  "startListening E [] m = (m, Inr ())"
| "startListening E (bucket # buckets) m =
     (if bucket \<in> set (registeredBuckets m) then
        startListening E buckets
          (m\<lparr>logged := logged m
                 @ [LogDebug (''Bucket '' @ bucket @ '' already has a listener'')]\<rparr>)
      else
        (case listenBucketNotification_throws E bucket of
           Some e \<Rightarrow> (m, Inl e)
         | None \<Rightarrow>
             (let listener = length (pollers m) in
              startListening E buckets
                (m\<lparr>pollers := pollers m
                      @ [\<lparr>pbucket = bucket, pprefix = prefix m, psuffix = suffix m,
                          pevents = [''s3:ObjectCreated:*'']\<rparr>],
                   registeredBuckets := set_add bucket (registeredBuckets m),
                   listeners := map_set bucket listener (listeners m),
                   logged := logged m
                      @ [LogInfo (''Listening for notifications on bucket '' @ bucket)],
                   on_notification := on_notification m @ [(listener, bucket)],
                   on_error := on_error m @ [(listener, bucket)]\<rparr>))))"

text \<open>\<^verbatim>\<open>stopListening\<close>: the loop over the map, then the two \<^verbatim>\<open>clear()\<close>s.\<close>

fun stop_each :: "(string \<times> nat) list \<Rightarrow> ListenerManager \<Rightarrow> ListenerManager" where
  "stop_each [] m = m"
| "stop_each ((bucket, listener) # rest) m =
     stop_each rest
       (m\<lparr>stopped := stopped m @ [listener],
          logged := logged m @ [LogInfo (''Stopped listening on bucket '' @ bucket)]\<rparr>)"

definition stopListening :: "ListenerManager \<Rightarrow> ListenerManager" where
  "stopListening m = (stop_each (listeners m) m)\<lparr>listeners := [], registeredBuckets := []\<rparr>"

text \<open>
  A subscription is live from \<^verbatim>\<open>listenBucketNotification\<close> until \<^verbatim>\<open>stop()\<close>. An event
  of the backend for a bucket reaches the notification observers of the live pollers
  on that bucket; \<open>dispatches\<close> lists the \<^verbatim>\<open>handleNotification\<close> calls it causes, each
  by the bucket argument of the call.
\<close>

definition live :: "ListenerManager \<Rightarrow> string \<Rightarrow> nat list" where
  "live m b =
     filter (\<lambda>h. pbucket (pollers m ! h) = b \<and> h \<notin> set (stopped m)) [0 ..< length (pollers m)]"

definition dispatches :: "ListenerManager \<Rightarrow> string \<Rightarrow> string list" where
  "dispatches m b = map snd (filter (\<lambda>(h, captured). h \<in> set (live m b)) (on_notification m))"

text \<open>A caller's history: any sequence of the three public operations.\<close>

datatype call = RegisterProcessor FileProcessor | StartListening "string list" | StopListening

fun do_call :: "env \<Rightarrow> ListenerManager \<Rightarrow> call \<Rightarrow> ListenerManager" where
  "do_call E m (RegisterProcessor p) = fst (registerProcessor m p)"
| "do_call E m (StartListening buckets) = fst (startListening E buckets m)"
| "do_call E m StopListening = stopListening m"

definition run_calls :: "env \<Rightarrow> ListenerManager \<Rightarrow> call list \<Rightarrow> ListenerManager" where
  "run_calls E m cs = foldl (do_call E) m cs"

section \<open>OpenHIMService.registerBucket (src/openhim/mediator.ts)\<close>

text \<open>
  \<open>get_response\<close> is how the GET of the mediator settles: the body, which may be
  empty, or an error with the status of its response, when it has one, and its message.
  \<open>put_throws\<close> is the same for the PUT of the registry.
\<close>

datatype get_result = GetData "MediatorConfig option" | GetError "nat option" string

record openhim =
  get_response :: get_result
  put_throws :: "BucketRegistryEntry list \<Rightarrow> string option"

definition getMediatorConfig :: "openhim \<Rightarrow> effect list \<times> MediatorConfig option" where
  "getMediatorConfig H =
     (case get_response H of
        GetData d \<Rightarrow> ([HttpGet], d)
      | GetError status message \<Rightarrow>
          (if status = Some 401 then
             ([HttpGet,
               LogError ''Failed to authenticate with OpenHIM, check your credentials''], None)
           else if status = Some 404 then
             ([HttpGet, LogDebug ''Mediator config not found in OpenHIM''], None)
           else
             ([HttpGet, LogError (''Failed to fetch mediator config: '' @ message)], None)))"

definition putMediatorConfig ::
  "openhim \<Rightarrow> BucketRegistryEntry list \<Rightarrow> effect list \<times> string option" where
  "putMediatorConfig H buckets =
     (case put_throws H buckets of
        None \<Rightarrow>
          ([HttpPut buckets, LogInfo ''Successfully updated mediator config in OpenHIM''], None)
      | Some message \<Rightarrow>
          ([HttpPut buckets, LogError (''Failed to update mediator config: '' @ message)],
           Some message))"

text \<open>
  The effects, and how the promise settles: \<open>Inr\<close> the boolean returned, \<open>Inl\<close> the
  error of a failed PUT, which \<^verbatim>\<open>putMediatorConfig\<close> rethrows.
\<close>

definition registerBucket :: "openhim \<Rightarrow> string \<Rightarrow> effect list \<times> (string + bool)" where
  "registerBucket H bucket =
     (case getMediatorConfig H of
        (got, None) \<Rightarrow>
          (got @ [LogError ''Mediator config not found in OpenHIM, unable to register bucket''],
           Inr False)
      | (got, Some mediatorConfig) \<Rightarrow>
          (let newBucket = \<lparr>entry_bucket = bucket, entry_region = None, entry_url = None,
                            entry_fileName = None, entry_authToken = None\<rparr>
           in (case mc_config mediatorConfig of
                 None \<Rightarrow>
                   (case putMediatorConfig H [newBucket] of
                      (put, thrown) \<Rightarrow>
                        (got @ [LogInfo ''Mediator config does not have a config section, creating new config'']
                           @ put,
                         (case thrown of None \<Rightarrow> Inr True | Some e \<Rightarrow> Inl e)))
               | Some existingConfig \<Rightarrow>
                   (case find (\<lambda>b. entry_bucket b = bucket)
                           (case minio_buckets_registry existingConfig of
                              None \<Rightarrow> [] | Some registry \<Rightarrow> registry) of
                      Some existingBucket \<Rightarrow>
                        (got @ [LogDebug (''Bucket '' @ bucket @ '' already exists in the config'')],
                         Inr False)
                    | None \<Rightarrow>
                        (case putMediatorConfig H
                                ((case minio_buckets_registry existingConfig of
                                    None \<Rightarrow> [] | Some registry \<Rightarrow> registry) @ [newBucket]) of
                           (put, thrown) \<Rightarrow>
                             (got @ [LogInfo (''Adding bucket '' @ bucket @ '' to OpenHIM config'')]
                                @ put,
                              (case thrown of None \<Rightarrow> Inr True | Some e \<Rightarrow> Inl e)))))))"

section \<open>Reading a trace\<close>

text \<open>The processors whose \<^verbatim>\<open>process\<close> was called, the events published, the paths removed.\<close>

fun invoked :: "effect list \<Rightarrow> FileProcessor list" where
  "invoked [] = []"
| "invoked (Process p c # t) = p # invoked t"
| "invoked (e # t) = invoked t"

fun emitted :: "effect list \<Rightarrow> BucketNotificationEvent list" where
  "emitted [] = []"
| "emitted (EmitNotification e # t) = e # emitted t"
| "emitted (x # t) = emitted t"

fun removals :: "effect list \<Rightarrow> string list" where
  "removals [] = []"
| "removals (Rm path # t) = path # removals t"
| "removals (x # t) = removals t"

section \<open>Concrete inputs\<close>

definition env_ok :: env where
  "env_ok = \<lparr>emit_throws = (\<lambda>e. None), fGetObject = (\<lambda>b f path. None),
             readFile = (\<lambda>path. Inr [123, 125]), rm = (\<lambda>path. None),
             listenBucketNotification_throws = (\<lambda>b. None)\<rparr>"

definition env_read_fails :: env where
  "env_read_fails =
     env_ok\<lparr>readFile :=
       (\<lambda>path. Inl (Error ''RangeError: File size is greater than 2 GiB''))\<rparr>"

definition env_fetch_fails :: env where
  "env_fetch_fails =
     env_ok\<lparr>fGetObject :=
       (\<lambda>b f path. Some (Error ''S3Error: The specified key does not exist.''))\<rparr>"

definition note_for :: "string \<Rightarrow> notification" where
  "note_for f = \<lparr>eventName = ''s3:ObjectCreated:Put'',
                 s3 = Some \<lparr>object = Some \<lparr>key = Some f\<rparr>\<rparr>\<rparr>"

definition note_without_key :: notification where
  "note_without_key = \<lparr>eventName = ''s3:ObjectCreated:Put'', s3 = Some \<lparr>object = None\<rparr>\<rparr>"

text \<open>
  \<^verbatim>\<open>(file, mimeType) => mimeType.startsWith("image/")\<close>, a predicate written
  against the declared type: it throws when the mime type is not a string.
\<close>

definition image_processor :: FileProcessor where
  "image_processor =
     \<lparr>constructor_name = Inr ''ImageProcessor'',
      canProcess = (\<lambda>f m. case m of
                       Str t \<Rightarrow> Inr (take 6 t = ''image/'')
                     | ObjectConstructor \<Rightarrow>
                         Inl (Error ''TypeError: mimeType.startsWith is not a function'')
                     | ObjectPrototype \<Rightarrow>
                         Inl (Error ''TypeError: mimeType.startsWith is not a function'')),
      process = (\<lambda>c. (Resolved, c))\<rparr>"

definition any_processor :: FileProcessor where
  "any_processor = \<lparr>constructor_name = Inr ''AnyProcessor'',
                     canProcess = (\<lambda>f m. Inr True),
                     process = (\<lambda>c. (Resolved, c))\<rparr>"

text \<open>\<^verbatim>\<open>process\<close> throws \<^verbatim>\<open>new Error("boom")\<close>.\<close>

definition failing_processor :: FileProcessor where
  "failing_processor = \<lparr>constructor_name = Inr ''FailingProcessor'',
                         canProcess = (\<lambda>f m. Inr True),
                         process = (\<lambda>c. (Rejected (Error ''Error: boom''), c))\<rparr>"

text \<open>\<^verbatim>\<open>process\<close> throws \<^verbatim>\<open>Symbol("boom")\<close>, which no template literal renders.\<close>

definition symbol_processor :: FileProcessor where
  "symbol_processor =
     \<lparr>constructor_name = Inr ''SymbolProcessor'',
      canProcess = (\<lambda>f m. Inr True),
      process = (\<lambda>c. (Rejected
                         (Unprintable ''TypeError: Cannot convert a Symbol value to a string''),
                       c))\<rparr>"

definition lake_registry :: "BucketRegistryEntry list" where
  "lake_registry =
     [\<lparr>entry_bucket = ''archive'', entry_region = None, entry_url = None,
       entry_fileName = None, entry_authToken = None\<rparr>,
      \<lparr>entry_bucket = ''lake'', entry_region = Some ''us-east-1'', entry_url = None,
       entry_fileName = None, entry_authToken = None\<rparr>]"

definition config_with_lake :: MediatorConfig where
  "config_with_lake =
     \<lparr>mc_urn = ''urn:mediator:datalake'', mc_version = ''1.0.0'', mc_name = ''datalake'',
      mc_description = ''Datalake mediator'',
      mc_config = Some \<lparr>minio_buckets_registry = Some lake_registry\<rparr>\<rparr>"

definition openhim_with_lake :: openhim where
  "openhim_with_lake = \<lparr>get_response = GetData (Some config_with_lake),
                         put_throws = (\<lambda>buckets. None)\<rparr>"

definition started_twice :: ListenerManager where
  "started_twice =
     run_calls env_ok (new_ListenerManager [] [])
       (map StartListening [[''archive'', ''lake''], [''lake'', ''staging'']])"

definition started_lake :: ListenerManager where
  "started_lake = run_calls env_ok (new_ListenerManager [] []) [StartListening [''lake'']]"

section \<open>What the bookkeeping keeps true\<close>

text \<open>
  The map has one entry per bucket, the set holds the map's keys, an entry's handle
  is a poller opened on the entry's bucket and not stopped, every poller not stopped
  has its entry, and observers and stopped handles belong to pollers that exist.
\<close>

definition consistent :: "ListenerManager \<Rightarrow> bool" where
  "consistent m \<longleftrightarrow>
     distinct (map fst (listeners m))
     \<and> set (registeredBuckets m) = fst ` set (listeners m)
     \<and> (\<forall>(b, h) \<in> set (listeners m).
           h < length (pollers m) \<and> pbucket (pollers m ! h) = b \<and> h \<notin> set (stopped m))
     \<and> (\<forall>h < length (pollers m).
           h \<notin> set (stopped m) \<longrightarrow> (pbucket (pollers m ! h), h) \<in> set (listeners m))
     \<and> (\<forall>(h, c) \<in> set (on_notification m).
           h < length (pollers m) \<and> c = pbucket (pollers m ! h))
     \<and> (\<forall>h \<in> set (stopped m). h < length (pollers m))"

section \<open>The fan-out loop\<close>

lemma emitted_append: "emitted (s @ t) = emitted s @ emitted t"
  by (induction s rule: emitted.induct) auto

lemma emitted_inner_catch: "inner_catch p f err = Inr line \<Longrightarrow> emitted [line] = []"
  by (auto simp: inner_catch_def split: sum.splits)

lemma emitted_inner_try: "inner_try p f outcome = Inr line \<Longrightarrow> emitted [line] = []"
  by (auto simp: inner_try_def emitted_inner_catch split: settled.splits sum.splits)

lemma emitted_run_processors: "emitted (fst (run_processors ps f m c)) = []"
proof (induction ps arbitrary: c)
  case Nil
  show ?case by simp
next
  case (Cons p ps)
  show ?case
  proof (cases "canProcess p f m")
    case (Inl thrown)
    then show ?thesis by simp
  next
    case (Inr matches)
    show ?thesis
    proof (cases matches)
      case False
      with Inr Cons.IH show ?thesis by simp
    next
      case True
      obtain outcome c' where pr: "process p c = (outcome, c')"
        by (cases "process p c")
      show ?thesis
      proof (cases "inner_try p f outcome")
        case (Inl thrown)
        with Inr True pr show ?thesis by simp
      next
        case line: (Inr line)
        obtain rest left where rp: "run_processors ps f m c' = (rest, left)"
          by (cases "run_processors ps f m c'")
        have "emitted rest = []"
          using Cons.IH [of c'] rp by simp
        moreover have "emitted [line] = []"
          using line by (rule emitted_inner_try)
        ultimately show ?thesis
          using Inr True pr line rp emitted_append [of "[line]" rest] by simp
      qed
    qed
  qed
qed

lemma emitted_try_body: "emitted (fst (try_body E ps b f)) = []"
proof -
  have "emitted (fst (run_processors ps f m c)) = []" for m c
    by (rule emitted_run_processors)
  then have "run_processors ps f m c = (t, r) \<Longrightarrow> emitted t = []" for m c t r
    by (metis fst_conv)
  then show ?thesis
    by (auto simp: try_body_def Let_def emitted_append
        split: option.splits sum.splits prod.splits)
qed

lemma key_note_for: "object_key (note_for f) = Some f"
  by (simp add: note_for_def object_key_def)

lemma detect_notes_constructor: "detectMimeType ''notes.constructor'' = ObjectConstructor"
  by (simp add: detectMimeType_def pop_def toLowerCase_def lower_char_def get_property_def
      mimeTypes_def)

lemma detect_data_json: "detectMimeType ''data.json'' = Str ''application/json''"
  by (simp add: detectMimeType_def pop_def toLowerCase_def lower_char_def get_property_def
      mimeTypes_def)

section \<open>Dispatch of one notification\<close>

text \<open>
  C1. The code at a list the claim covers. An image processor and a catch-all are
  registered, in this order, and a file named \<^verbatim>\<open>notes.constructor\<close> arrives; its mime
  type is classified as the function \<^verbatim>\<open>Object\<close>. The catch-all's predicate returns
  true for the file, and yet no processor is called: the first predicate throws on
  the mime type, the call stands outside the inner \<^verbatim>\<open>try\<close>, and the exception ends
  the loop in the outer \<^verbatim>\<open>catch\<close>.
\<close>

theorem throwing_predicate_ends_fan_out:
  "processors (run_calls env_ok (new_ListenerManager [] [])
      [RegisterProcessor image_processor, RegisterProcessor any_processor])
     = [image_processor, any_processor]
   \<and> canProcess any_processor ''notes.constructor'' (detectMimeType ''notes.constructor'')
       = Inr True
   \<and> handleNotification env_ok [image_processor, any_processor] ''lake''
        (note_for ''notes.constructor'')
       = ([LogInfo ''File received: notes.constructor from bucket lake'',
           EmitNotification \<lparr>ev_bucket = ''lake'', ev_file = ''notes.constructor'',
                             ev_eventType = ''s3:ObjectCreated:*''\<rparr>,
           FGetObject ''lake'' ''notes.constructor'' ''tmp/notes.constructor'',
           ReadFile ''tmp/notes.constructor'',
           LogError ''Error processing file notes.constructor: TypeError: mimeType.startsWith is not a function''],
          Inr ())
   \<and> invoked (fst (handleNotification env_ok [image_processor, any_processor] ''lake''
                      (note_for ''notes.constructor''))) = []"
  by (simp add: run_calls_def registerProcessor_def new_ListenerManager_def
      handleNotification_def try_body_def Let_def env_ok_def key_note_for
      detect_notes_constructor image_processor_def any_processor_def)

text \<open>
  C2. The code at two lists the claim covers. In the first a processor whose
  \<^verbatim>\<open>process\<close> raises an ordinary error stands before the image processor and the
  catch-all, and the file is \<^verbatim>\<open>notes.constructor\<close>: the failure is caught and logged,
  then the next predicate throws, and the catch-all, whose predicate returns true, is
  never called. In the second \<^verbatim>\<open>process\<close> raises a value that cannot be rendered: the
  template of the inner \<^verbatim>\<open>catch\<close> throws, the line with the processor's name is
  never written, and again the catch-all is never called.
\<close>

theorem later_processor_lost_after_failure:
  "canProcess any_processor ''notes.constructor'' (detectMimeType ''notes.constructor'')
       = Inr True
   \<and> handleNotification env_ok [failing_processor, image_processor, any_processor] ''lake''
        (note_for ''notes.constructor'')
       = ([LogInfo ''File received: notes.constructor from bucket lake'',
           EmitNotification \<lparr>ev_bucket = ''lake'', ev_file = ''notes.constructor'',
                             ev_eventType = ''s3:ObjectCreated:*''\<rparr>,
           FGetObject ''lake'' ''notes.constructor'' ''tmp/notes.constructor'',
           ReadFile ''tmp/notes.constructor'',
           Process failing_processor
             \<lparr>ctx_bucket = ''lake'', ctx_file = ''notes.constructor'', ctx_buffer = [123, 125],
              ctx_mimeType = ObjectConstructor, ctx_metadata = []\<rparr>,
           LogError ''Processor FailingProcessor failed for notes.constructor: Error: boom'',
           LogError ''Error processing file notes.constructor: TypeError: mimeType.startsWith is not a function''],
          Inr ())
   \<and> invoked (fst (handleNotification env_ok
                      [failing_processor, image_processor, any_processor] ''lake''
                      (note_for ''notes.constructor''))) = [failing_processor]
   \<and> canProcess any_processor ''data.json'' (detectMimeType ''data.json'') = Inr True
   \<and> handleNotification env_ok [symbol_processor, any_processor] ''lake''
        (note_for ''data.json'')
       = ([LogInfo ''File received: data.json from bucket lake'',
           EmitNotification \<lparr>ev_bucket = ''lake'', ev_file = ''data.json'',
                             ev_eventType = ''s3:ObjectCreated:*''\<rparr>,
           FGetObject ''lake'' ''data.json'' ''tmp/data.json'',
           ReadFile ''tmp/data.json'',
           Process symbol_processor
             \<lparr>ctx_bucket = ''lake'', ctx_file = ''data.json'', ctx_buffer = [123, 125],
              ctx_mimeType = Str ''application/json'', ctx_metadata = []\<rparr>,
           LogError ''Error processing file data.json: TypeError: Cannot convert a Symbol value to a string''],
          Inr ())
   \<and> invoked (fst (handleNotification env_ok [symbol_processor, any_processor] ''lake''
                      (note_for ''data.json''))) = [symbol_processor]"
  by (simp add: handleNotification_def try_body_def Let_def env_ok_def key_note_for
      detect_notes_constructor detect_data_json inner_try_def inner_catch_def
      image_processor_def any_processor_def failing_processor_def symbol_processor_def)

text \<open>
  C3. A notification without a resolvable key (\<^verbatim>\<open>s3\<close>, \<^verbatim>\<open>s3.object\<close> or
  \<^verbatim>\<open>s3.object.key\<close> absent, or the key empty): the handler logs one warning and
  resolves. The trace holds nothing else: no processor is called, no file is fetched,
  read or removed, nothing is published.
\<close>

theorem missing_key_dropped:
  assumes "object_key n = None \<or> object_key n = Some []"
  shows "handleNotification E ps b n
           = ([LogWarn ''Received notification without file key''], Inr ())"
  using assms by (auto simp: handleNotification_def)

theorem missing_key_dropped_witness:
  "handleNotification env_fetch_fails [any_processor] ''lake'' note_without_key
     = ([LogWarn ''Received notification without file key''], Inr ())"
proof -
  have h: "object_key note_without_key = None \<or> object_key note_without_key = Some []"
    by (simp add: note_without_key_def object_key_def)
  show ?thesis by (rule missing_key_dropped [OF h])
qed

text \<open>
  C4. The code at two notifications whose fetch to the temporary path succeeds. In
  the first the read of the staged copy fails (a file beyond the size \<^verbatim>\<open>readFile\<close>
  accepts); in the second fetch and read succeed and a predicate throws in the
  fan-out. Either exception leaves the \<^verbatim>\<open>try\<close> before its last statement, the
  removal, which no \<^verbatim>\<open>finally\<close> repeats: the staged copy stays where it is.
\<close>

theorem staged_copy_left_behind:
  "fGetObject env_read_fails ''lake'' ''scan.pdf'' (''tmp/'' @ ''scan.pdf'') = None
   \<and> handleNotification env_read_fails [any_processor] ''lake'' (note_for ''scan.pdf'')
       = ([LogInfo ''File received: scan.pdf from bucket lake'',
           EmitNotification \<lparr>ev_bucket = ''lake'', ev_file = ''scan.pdf'',
                             ev_eventType = ''s3:ObjectCreated:*''\<rparr>,
           FGetObject ''lake'' ''scan.pdf'' ''tmp/scan.pdf'',
           ReadFile ''tmp/scan.pdf'',
           LogError ''Error processing file scan.pdf: RangeError: File size is greater than 2 GiB''],
          Inr ())
   \<and> removals (fst (handleNotification env_read_fails [any_processor] ''lake''
                       (note_for ''scan.pdf''))) = []
   \<and> fGetObject env_ok ''lake'' ''notes.constructor'' (''tmp/'' @ ''notes.constructor'') = None
   \<and> readFile env_ok (''tmp/'' @ ''notes.constructor'') = Inr [123, 125]
   \<and> removals (fst (handleNotification env_ok [image_processor, any_processor] ''lake''
                       (note_for ''notes.constructor''))) = []"
  by (simp add: handleNotification_def try_body_def Let_def env_read_fails_def env_ok_def
      key_note_for detect_notes_constructor image_processor_def any_processor_def)

text \<open>
  C7. A notification with a key: the first two effects are the info line and the
  publication of the event with the bucket, the file and the event type, whatever the
  bus, the fetch, the read, the processors and the removal do afterwards. Every
  staging effect therefore comes after the publication, and nothing else is published.
\<close>

theorem notification_published_first:
  assumes "object_key n = Some f" and "f \<noteq> []"
  shows "\<exists>rest. fst (handleNotification E ps b n)
           = LogInfo (''File received: '' @ f @ '' from bucket '' @ b)
             # EmitNotification \<lparr>ev_bucket = b, ev_file = f,
                                  ev_eventType = ''s3:ObjectCreated:*''\<rparr>
             # rest
           \<and> emitted rest = []"
proof (cases "emit_throws E \<lparr>ev_bucket = b, ev_file = f, ev_eventType = ''s3:ObjectCreated:*''\<rparr>")
  case (Some e)
  with assms show ?thesis by (simp add: handleNotification_def Let_def)
next
  case None
  obtain t r where tb: "try_body E ps b f = (t, r)" by (cases "try_body E ps b f")
  have "emitted t = []" using emitted_try_body [of E ps b f] tb by simp
  with assms None tb show ?thesis
    by (cases r)
      (simp_all add: handleNotification_def Let_def emitted_append split: sum.splits)
qed

theorem notification_published_first_witness:
  "\<exists>rest. fst (handleNotification env_fetch_fails [failing_processor] ''lake''
                  (note_for ''data.json''))
           = LogInfo (''File received: '' @ ''data.json'' @ '' from bucket '' @ ''lake'')
             # EmitNotification \<lparr>ev_bucket = ''lake'', ev_file = ''data.json'',
                                  ev_eventType = ''s3:ObjectCreated:*''\<rparr>
             # rest
           \<and> emitted rest = []"
proof -
  have h1: "object_key (note_for ''data.json'') = Some ''data.json''"
    by (rule key_note_for)
  have h2: "''data.json'' \<noteq> []" by simp
  show ?thesis by (rule notification_published_first [OF h1 h2])
qed

text \<open>
  C10. A notification with a key: exactly one event is published, and its event type
  is the constant \<^verbatim>\<open>s3:ObjectCreated:*\<close>, whatever event name the payload carried.
\<close>

theorem published_eventType_constant:
  assumes "object_key n = Some f" and "f \<noteq> []"
  shows "emitted (fst (handleNotification E ps b (n\<lparr>eventName := anyType\<rparr>)))
           = [\<lparr>ev_bucket = b, ev_file = f, ev_eventType = ''s3:ObjectCreated:*''\<rparr>]"
proof -
  have k: "object_key (n\<lparr>eventName := anyType\<rparr>) = Some f"
    using assms(1) by (simp add: object_key_def)
  show ?thesis
  proof (cases "emit_throws E \<lparr>ev_bucket = b, ev_file = f,
                                ev_eventType = ''s3:ObjectCreated:*''\<rparr>")
    case (Some e)
    with k assms(2) show ?thesis by (simp add: handleNotification_def Let_def)
  next
    case None
    obtain t r where tb: "try_body E ps b f = (t, r)" by (cases "try_body E ps b f")
    have "emitted t = []" using emitted_try_body [of E ps b f] tb by simp
    with k assms(2) None tb show ?thesis
      by (cases r)
        (simp_all add: handleNotification_def Let_def emitted_append split: sum.splits)
  qed
qed

theorem published_eventType_constant_witness:
  "emitted (fst (handleNotification env_ok [any_processor] ''lake''
      ((note_for ''data.json'')\<lparr>eventName := ''s3:ObjectCreated:CompleteMultipartUpload''\<rparr>)))
   = [\<lparr>ev_bucket = ''lake'', ev_file = ''data.json'', ev_eventType = ''s3:ObjectCreated:*''\<rparr>]"
proof -
  have h1: "object_key (note_for ''data.json'') = Some ''data.json''"
    by (rule key_note_for)
  have h2: "''data.json'' \<noteq> []" by simp
  show ?thesis by (rule published_eventType_constant [OF h1 h2])
qed

section \<open>The mime classifier\<close>

text \<open>
  C8. The code at two names the claim sends to \<^verbatim>\<open>application/octet-stream\<close>: a name
  with no extension at all that spells a key of the table, and a name whose extension
  is not a content type but a member every object literal inherits. The first gets
  the key's content type, the second no string at all.
\<close>

theorem detectMimeType_dotless_and_inherited:
  "detectMimeType ''json'' = Str ''application/json''
   \<and> detectMimeType ''notes.constructor'' = ObjectConstructor"
  by (simp add: detectMimeType_def pop_def toLowerCase_def lower_char_def get_property_def
      mimeTypes_def)

section \<open>Subscriptions\<close>

lemma consistent_new: "consistent (new_ListenerManager pre suf)"
  by (simp add: consistent_def new_ListenerManager_def)

lemma consistent_registerProcessor:
  "consistent m \<Longrightarrow> consistent (fst (registerProcessor m p))"
  by (simp add: consistent_def registerProcessor_def split: sum.splits)

lemma consistent_logged: "consistent (m\<lparr>logged := l\<rparr>) = consistent m"
  by (simp add: consistent_def)

lemma map_set_fresh: "k \<notin> fst ` set xs \<Longrightarrow> map_set k v xs = xs @ [(k, v)]"
  by (induction xs) auto

lemma stop_each_eq:
  "stop_each xs m
     = m\<lparr>stopped := stopped m @ map snd xs,
         logged := logged m
            @ map (\<lambda>(b, h). LogInfo (''Stopped listening on bucket '' @ b)) xs\<rparr>"
  by (induction xs arbitrary: m) auto

lemma consistent_open:
  assumes "consistent m" and "b \<notin> set (registeredBuckets m)"
  shows "consistent
           (m\<lparr>pollers := pollers m
                 @ [\<lparr>pbucket = b, pprefix = prefix m, psuffix = suffix m,
                     pevents = [''s3:ObjectCreated:*'']\<rparr>],
              registeredBuckets := set_add b (registeredBuckets m),
              listeners := map_set b (length (pollers m)) (listeners m),
              logged := l,
              on_notification := on_notification m @ [(length (pollers m), b)],
              on_error := on_error m @ [(length (pollers m), b)]\<rparr>)"
proof -
  have fresh: "b \<notin> fst ` set (listeners m)"
    using assms by (simp add: consistent_def)
  have ms: "map_set b (length (pollers m)) (listeners m) = listeners m @ [(b, length (pollers m))]"
    using fresh by (rule map_set_fresh)
  have sa: "set_add b (registeredBuckets m) = registeredBuckets m @ [b]"
    using assms(2) by (simp add: set_add_def)
  show ?thesis
    using assms(1) fresh unfolding ms sa consistent_def
    by (auto simp: nth_append less_Suc_eq)
qed

lemma consistent_startListening:
  "consistent m \<Longrightarrow> consistent (fst (startListening E bs m))"
proof (induction bs arbitrary: m)
  case Nil
  then show ?case by simp
next
  case (Cons b bs)
  show ?case
  proof (cases "b \<in> set (registeredBuckets m)")
    case True
    then show ?thesis using Cons by (simp add: consistent_logged)
  next
    case False
    show ?thesis
    proof (cases "listenBucketNotification_throws E b")
      case (Some e)
      then show ?thesis using False Cons.prems by simp
    next
      case None
      then show ?thesis
        using False Cons.IH [OF consistent_open [OF Cons.prems False]]
        by (simp add: Let_def)
    qed
  qed
qed

lemma consistent_stopListening: "consistent m \<Longrightarrow> consistent (stopListening m)"
  unfolding consistent_def stopListening_def stop_each_eq
  by (auto simp: rev_image_eqI)

lemma consistent_do_call: "consistent m \<Longrightarrow> consistent (do_call E m c)"
  by (cases c)
    (simp_all add: consistent_registerProcessor consistent_startListening
      consistent_stopListening)

lemma consistent_run_calls: "consistent m \<Longrightarrow> consistent (run_calls E m cs)"
  unfolding run_calls_def
  by (induction cs arbitrary: m) (simp_all add: consistent_do_call)

lemma set_live:
  assumes "consistent m"
  shows "set (live m b) = {h. (b, h) \<in> set (listeners m)}"
  using assms unfolding consistent_def live_def by auto

lemma distinct_live: "distinct (live m b)"
  by (simp add: live_def)

lemma live_count:
  assumes "consistent m"
  shows "length (live m b) = (if b \<in> set (registeredBuckets m) then 1 else 0)"
proof -
  have len: "length (live m b) = card {h. (b, h) \<in> set (listeners m)}"
    using distinct_card [OF distinct_live, of m b] set_live [OF assms, of b] by simp
  have dist: "distinct (map fst (listeners m))"
    and reg: "set (registeredBuckets m) = fst ` set (listeners m)"
    using assms by (simp_all add: consistent_def)
  show ?thesis
  proof (cases "b \<in> set (registeredBuckets m)")
    case True
    then obtain h where h: "(b, h) \<in> set (listeners m)" using reg by auto
    have "{h'. (b, h') \<in> set (listeners m)} = {h}"
      using h dist by (auto dest: eq_key_imp_eq_value)
    then show ?thesis using True len by simp
  next
    case False
    then have "{h'. (b, h') \<in> set (listeners m)} = {}"
      using reg by force
    then show ?thesis using False len by simp
  qed
qed

lemma registered_startListening:
  assumes "\<forall>x. listenBucketNotification_throws E x = None"
  shows "set (registeredBuckets (fst (startListening E bs m))) = set (registeredBuckets m) \<union> set bs
         \<and> snd (startListening E bs m) = Inr ()"
  using assms
  by (induction bs arbitrary: m) (auto simp: Let_def set_add_def)

lemma registered_run_starts:
  assumes "\<forall>x. listenBucketNotification_throws E x = None"
  shows "set (registeredBuckets (run_calls E m (map StartListening bss)))
           = set (registeredBuckets m) \<union> \<Union> (set ` set bss)"
  unfolding run_calls_def
  using assms
  by (induction bss arbitrary: m) (auto simp: registered_startListening)

lemma singleton_list:
  assumes "distinct xs" and "set xs = {x}"
  shows "xs = [x]"
proof -
  have "length xs = 1"
    using distinct_card [OF assms(1)] assms(2) by simp
  then obtain y where "xs = [y]"
    by (cases xs) auto
  with assms(2) show ?thesis by simp
qed

lemma restart_state:
  assumes "listenBucketNotification_throws E b = None"
  shows "startListening E [b] (stopListening m)
     = ((stopListening m)\<lparr>pollers := pollers m
                 @ [\<lparr>pbucket = b, pprefix = prefix m, psuffix = suffix m,
                     pevents = [''s3:ObjectCreated:*'']\<rparr>],
              registeredBuckets := [b],
              listeners := [(b, length (pollers m))],
              logged := logged (stopListening m)
                 @ [LogInfo (''Listening for notifications on bucket '' @ b)],
              on_notification := on_notification m @ [(length (pollers m), b)],
              on_error := on_error m @ [(length (pollers m), b)]\<rparr>, Inr ())"
  using assms by (simp add: stopListening_def stop_each_eq set_add_def Let_def)

text \<open>
  C5. After any sequence of calls on a new manager a bucket has at most one live
  subscription. After a sequence of \<^verbatim>\<open>startListening\<close> calls that the client served
  without throwing, a bucket named in any of them has exactly one and any other bucket
  none. A call naming a bucket of the subscribed set changes nothing but the log, by
  one debug line, and resolves.
\<close>

theorem one_subscription_per_bucket:
  "length (live (run_calls E (new_ListenerManager pre suf) cs) b) \<le> 1
   \<and> ((\<forall>x. listenBucketNotification_throws E x = None) \<longrightarrow>
        length (live (run_calls E (new_ListenerManager pre suf) (map StartListening bss)) b)
          = (if b \<in> \<Union> (set ` set bss) then 1 else 0))
   \<and> (b \<in> set (registeredBuckets m) \<longrightarrow>
        startListening E [b] m
          = (m\<lparr>logged := logged m @ [LogDebug (''Bucket '' @ b @ '' already has a listener'')]\<rparr>,
             Inr ()))"
proof (intro conjI impI)
  have c: "consistent (run_calls E (new_ListenerManager pre suf) cs)"
    by (rule consistent_run_calls [OF consistent_new])
  show "length (live (run_calls E (new_ListenerManager pre suf) cs) b) \<le> 1"
    by (simp add: live_count [OF c])
next
  assume ok: "\<forall>x. listenBucketNotification_throws E x = None"
  have c: "consistent (run_calls E (new_ListenerManager pre suf) (map StartListening bss))"
    by (rule consistent_run_calls [OF consistent_new])
  have "set (registeredBuckets (run_calls E (new_ListenerManager pre suf) (map StartListening bss)))
          = \<Union> (set ` set bss)"
    using registered_run_starts [OF ok, of "new_ListenerManager pre suf" bss]
    by (simp add: new_ListenerManager_def)
  then show "length (live (run_calls E (new_ListenerManager pre suf) (map StartListening bss)) b)
          = (if b \<in> \<Union> (set ` set bss) then 1 else 0)"
    using live_count [OF c, of b] by simp
next
  assume "b \<in> set (registeredBuckets m)"
  then show "startListening E [b] m
          = (m\<lparr>logged := logged m @ [LogDebug (''Bucket '' @ b @ '' already has a listener'')]\<rparr>,
             Inr ())"
    by simp
qed

theorem one_subscription_per_bucket_witness:
  "length (live started_twice ''lake'') = 1
   \<and> startListening env_ok [''lake''] started_twice
       = (started_twice\<lparr>logged := logged started_twice
            @ [LogDebug (''Bucket '' @ ''lake'' @ '' already has a listener'')]\<rparr>, Inr ())"
proof -
  have ok: "\<forall>x. listenBucketNotification_throws env_ok x = None"
    by (simp add: env_ok_def)
  have mem: "''lake'' \<in> \<Union> (set ` set [[''archive'', ''lake''], [''lake'', ''staging'']])"
    by simp
  have reg: "''lake'' \<in> set (registeredBuckets started_twice)"
    unfolding started_twice_def registered_run_starts [OF ok] by simp
  note T = one_subscription_per_bucket [of env_ok "[]" "[]" "[]" "''lake''"
      "[[''archive'', ''lake''], [''lake'', ''staging'']]" started_twice]
  have a: "length (live started_twice ''lake'') = 1"
    using T ok mem unfolding started_twice_def by presburger
  have b: "startListening env_ok [''lake''] started_twice
       = (started_twice\<lparr>logged := logged started_twice
            @ [LogDebug (''Bucket '' @ ''lake'' @ '' already has a listener'')]\<rparr>, Inr ())"
    using T reg by blast
  show ?thesis using a b by (rule conjI)
qed

text \<open>
  C6. In a state a new manager can reach: \<^verbatim>\<open>stopListening\<close> calls \<^verbatim>\<open>stop()\<close> on the
  handle of every entry of the map, in order, and leaves set and map empty and no
  subscription live; with an empty map it changes nothing. A \<^verbatim>\<open>startListening\<close> on a
  bucket right after it opens one subscription under a handle no earlier poller had,
  the map holds that entry alone, and an event for the bucket is dispatched once.
\<close>

theorem stop_then_restart_fresh:
  assumes "m = run_calls E (new_ListenerManager pre suf) cs"
  shows "stopped (stopListening m) = stopped m @ map snd (listeners m)
     \<and> registeredBuckets (stopListening m) = []
     \<and> listeners (stopListening m) = []
     \<and> live (stopListening m) b = []
     \<and> (listeners m = [] \<longrightarrow> stopListening m = m)
     \<and> (listenBucketNotification_throws E b = None \<longrightarrow>
          snd (startListening E [b] (stopListening m)) = Inr ()
          \<and> listeners (fst (startListening E [b] (stopListening m))) = [(b, length (pollers m))]
          \<and> live (fst (startListening E [b] (stopListening m))) b = [length (pollers m)]
          \<and> dispatches (fst (startListening E [b] (stopListening m))) b = [b])"
proof -
  have c: "consistent m"
    unfolding assms by (rule consistent_run_calls [OF consistent_new])
  have cs: "consistent (stopListening m)"
    by (rule consistent_stopListening [OF c])
  have 1: "stopped (stopListening m) = stopped m @ map snd (listeners m)"
    by (simp add: stopListening_def stop_each_eq)
  have 2: "registeredBuckets (stopListening m) = []" "listeners (stopListening m) = []"
    by (simp_all add: stopListening_def)
  have 3: "live (stopListening m) b = []"
    using live_count [OF cs, of b] 2 by simp
  have 4: "listeners m = [] \<longrightarrow> stopListening m = m"
  proof
    assume e: "listeners m = []"
    then have "registeredBuckets m = []" using c by (simp add: consistent_def)
    with e show "stopListening m = m"
      by (simp add: stopListening_def)
  qed
  have 5: "listenBucketNotification_throws E b = None \<longrightarrow>
          snd (startListening E [b] (stopListening m)) = Inr ()
          \<and> listeners (fst (startListening E [b] (stopListening m))) = [(b, length (pollers m))]
          \<and> live (fst (startListening E [b] (stopListening m))) b = [length (pollers m)]
          \<and> dispatches (fst (startListening E [b] (stopListening m))) b = [b]"
  proof
    assume ok: "listenBucketNotification_throws E b = None"
    define m' where "m' = fst (startListening E [b] (stopListening m))"
    note rs = restart_state [OF ok, of m]
    have c': "consistent m'"
      unfolding m'_def by (rule consistent_startListening [OF cs])
    have l: "listeners m' = [(b, length (pollers m))]"
      unfolding m'_def rs by simp
    have on: "on_notification m' = on_notification m @ [(length (pollers m), b)]"
      unfolding m'_def rs by simp
    have sn: "snd (startListening E [b] (stopListening m)) = Inr ()"
      unfolding rs by simp
    have "set (live m' b) = {length (pollers m)}"
      using set_live [OF c', of b] l by simp
    then have lv: "live m' b = [length (pollers m)]"
      using singleton_list [OF distinct_live] by blast
    have old: "\<forall>(h, x) \<in> set (on_notification m). h \<noteq> length (pollers m)"
      using c by (auto simp: consistent_def)
    have "filter (\<lambda>(h, captured). h \<in> set [length (pollers m)]) (on_notification m) = []"
      using old by (auto simp: filter_empty_conv)
    then have d: "dispatches m' b = [b]"
      by (simp add: dispatches_def lv on)
    show "snd (startListening E [b] (stopListening m)) = Inr ()
          \<and> listeners (fst (startListening E [b] (stopListening m))) = [(b, length (pollers m))]
          \<and> live (fst (startListening E [b] (stopListening m))) b = [length (pollers m)]
          \<and> dispatches (fst (startListening E [b] (stopListening m))) b = [b]"
      using l lv d sn unfolding m'_def by blast
  qed
  show ?thesis using 1 2 3 4 5 by blast
qed

theorem stop_then_restart_fresh_witness:
  "stopListening (new_ListenerManager [] []) = new_ListenerManager [] []
   \<and> live (stopListening started_lake) ''lake'' = []
   \<and> listeners (fst (startListening env_ok [''lake''] (stopListening started_lake)))
       = [(''lake'', 1)]
   \<and> live (fst (startListening env_ok [''lake''] (stopListening started_lake))) ''lake'' = [1]
   \<and> dispatches (fst (startListening env_ok [''lake''] (stopListening started_lake))) ''lake''
       = [''lake'']"
proof -
  have e: "new_ListenerManager [] [] = run_calls env_ok (new_ListenerManager [] []) []"
    by (simp add: run_calls_def)
  have le: "listeners (new_ListenerManager [] []) = []"
    by (simp add: new_ListenerManager_def)
  have a: "stopListening (new_ListenerManager [] []) = new_ListenerManager [] []"
    using stop_then_restart_fresh [OF e, of "''lake''"] le by blast
  have ok: "listenBucketNotification_throws env_ok ''lake'' = None"
    by (simp add: env_ok_def)
  have n: "length (pollers started_lake) = 1"
    by (simp add: started_lake_def run_calls_def new_ListenerManager_def env_ok_def Let_def)
  note T = stop_then_restart_fresh [OF started_lake_def, of "''lake''"]
  show ?thesis
    using a T ok unfolding n by blast
qed

section \<open>Registration of a bucket with OpenHIM\<close>

text \<open>
  C9. When the GET returns a configuration whose registry already has an entry for the
  bucket, \<^verbatim>\<open>registerBucket\<close> does the GET, logs one debug line and returns false; the
  trace has no PUT.
\<close>

theorem registerBucket_duplicate_noop:
  assumes "get_response H = GetData (Some mediatorConfig)"
    and "mc_config mediatorConfig = Some existingConfig"
    and "minio_buckets_registry existingConfig = Some registry"
    and "bucket \<in> entry_bucket ` set registry"
  shows "registerBucket H bucket
           = ([HttpGet, LogDebug (''Bucket '' @ bucket @ '' already exists in the config'')],
              Inr False)"
proof -
  have "find (\<lambda>b. entry_bucket b = bucket) registry \<noteq> None"
    using assms(4) by (auto simp: find_None_iff)
  then obtain e where "find (\<lambda>b. entry_bucket b = bucket) registry = Some e"
    by blast
  with assms(1-3) show ?thesis
    by (simp add: registerBucket_def getMediatorConfig_def)
qed

theorem registerBucket_duplicate_noop_witness:
  "registerBucket openhim_with_lake ''lake''
     = ([HttpGet, LogDebug (''Bucket '' @ ''lake'' @ '' already exists in the config'')],
        Inr False)"
proof -
  have h1: "get_response openhim_with_lake = GetData (Some config_with_lake)"
    by (simp add: openhim_with_lake_def)
  have h2: "mc_config config_with_lake = Some \<lparr>minio_buckets_registry = Some lake_registry\<rparr>"
    by (simp add: config_with_lake_def)
  have h3: "minio_buckets_registry \<lparr>minio_buckets_registry = Some lake_registry\<rparr>
              = Some lake_registry"
    by simp
  have h4: "''lake'' \<in> entry_bucket ` set lake_registry"
    by (auto simp: lake_registry_def image_iff)
  show ?thesis
    by (rule registerBucket_duplicate_noop [OF h1 h2 h3 h4])
qed

end
